theory Spec2Isabelle
  imports Complex_Main "HOL-Library.Multiset"
begin

section \<open>The transfer-learning notebook\<close>

text \<open>
  The repository is one notebook, \<^verbatim>\<open>transfer-learning.ipynb\<close>. Its code cells build two
  Keras models (\<^verbatim>\<open>create_model_from_resnet\<close>, \<^verbatim>\<open>create_model_from_xception\<close>),
  compile them, set up two directory iterators and call \<^verbatim>\<open>fit\<close> once per model.

  The development follows the cells top to bottom. A Keras object is the record of the
  arguments it was built with, omitted arguments at the defaults of the Keras signature;
  string arguments stay the strings of the source. Everything the notebook reads from
  outside (weight files, the image directories, the random number generators, the
  gradient step of the optimizer) is a field of a \<open>world\<close> that every definition takes
  as a parameter. Tensors are of an arbitrary type \<open>'w\<close>; where the numbers a model
  puts out matter, their meaning is given over the real numbers.
\<close>

subsection \<open>Layers and models\<close>

text \<open>
  The ways a run can stop early: Python's \<^verbatim>\<open>IndexError\<close>, Keras's \<^verbatim>\<open>RuntimeError\<close> for
  training a model that was not compiled, and the \<^verbatim>\<open>ValueError\<close> of a directory iterator
  asked for a batch it does not have or of a training epoch that got no batch at all.
\<close>

datatype failure = IndexError | RuntimeError | ValueError

datatype application = ResNet50 | Xception

text \<open>
  \<^verbatim>\<open>ResNet50(include_top=..., pooling=..., weights=...)\<close> and the same call of
  \<^verbatim>\<open>Xception\<close> give a \<open>Functional\<close> layer; \<^verbatim>\<open>Dense(units, activation=...)\<close> gives a
  \<open>Dense\<close> one. \<open>None\<close> is Python's \<^verbatim>\<open>None\<close>.
\<close>

datatype layer_config =
    Functional application (include_top: bool) (pooling: "string option") (weights_arg: "string option")
  | Dense (units: nat) (activation: "string option")

record 'w layer =
  config :: layer_config
  trainable :: bool
  weights :: "(string \<times> 'w) list"

record compile_args =
  optimizer :: string
  loss :: string
  metrics :: "string list"

record 'w model =
  layers :: "'w layer list"
  compiled :: "compile_args option"

text \<open>
  What one processed sample of a batch is: the file it was read from and the size it was
  resized to, then the random transformations and the standardisation steps applied to
  it, together with its label vector.
\<close>

datatype augmentation =
  Rotation | Width_shift | Height_shift | Shear | Zoom | Channel_shift
  | Horizontal_flip | Vertical_flip | Brightness

datatype preprocess_fn = resnet50_preprocess_input | xception_preprocess_input

datatype standardization =
  Preprocessing_function preprocess_fn | Rescale | Samplewise_center
  | Samplewise_std_normalization | Featurewise_center | Featurewise_std_normalization
  | Zca_whitening

datatype pixels =
    Load_img string "nat \<times> nat"
  | Augment augmentation pixels
  | Standardize standardization pixels

type_synonym sample = "pixels \<times> nat list"

type_synonym batch = "sample list"

text \<open>
  The outside world. \<open>load_weights\<close> is the content of the weight artefact that the
  \<^verbatim>\<open>weights\<close> argument names; \<open>glorot_uniform\<close> and \<open>zeros\<close> are the initialisers of a
  Dense layer's kernel and bias; \<open>listdir\<close> gives, for an image directory, its class
  sub-directories in sorted order, each with its image files; \<open>py_random\<close> gives
  the random keys behind \<^verbatim>\<open>random.shuffle\<close> (by seed and epoch) and \<open>np_random\<close> those
  behind \<^verbatim>\<open>np.random.permutation\<close> (by seed, directory and epoch); \<open>coin\<close> is the
  random decision whether an enabled transformation hits a given file;
  \<open>apply_gradients\<close> is the new value that the optimizer of the given name, reducing
  the loss of the given name on a batch, gives to one variable (layer index, variable
  name, old value).
\<close>

record 'w world =
  load_weights :: "application \<Rightarrow> string \<Rightarrow> (string \<times> 'w) list"
  glorot_uniform :: "nat \<Rightarrow> nat \<Rightarrow> 'w"
  zeros :: "nat \<Rightarrow> 'w"
  listdir :: "string \<Rightarrow> (string \<times> string list) list"
  py_random :: "int option \<Rightarrow> nat \<Rightarrow> nat \<Rightarrow> nat"
  np_random :: "int option \<Rightarrow> string \<Rightarrow> nat \<Rightarrow> nat \<Rightarrow> nat"
  coin :: "string \<Rightarrow> augmentation \<Rightarrow> bool"
  apply_gradients ::
    "string \<Rightarrow> string \<Rightarrow> batch \<Rightarrow> 'w layer list \<Rightarrow> nat \<Rightarrow> string \<Rightarrow> 'w \<Rightarrow> 'w"

text \<open>
  The width of a layer's output, and its number of parameters. For the two backbones
  without their top both numbers are the ones \<^verbatim>\<open>my_new_model.summary()\<close> printed in
  the notebook (\<^verbatim>\<open>(None, 2048)\<close>, 23587712 and 20861480); the notebook records none for
  a backbone with its top.
\<close>

fun output_units :: "layer_config \<Rightarrow> nat option" where
  "output_units (Functional a incl p wt) = (if incl then None else Some 2048)"
| "output_units (Dense n act) = Some n"


text \<open>
  The layer constructors. A backbone takes its weights from the artefact named by
  \<^verbatim>\<open>weights\<close> (none when \<^verbatim>\<open>weights=None\<close>: Keras then initialises at random, which
  the notebook never asks for). A Dense layer has no variables until it is added to a
  model, which fixes its input width.
\<close>

definition application_layer ::
  "'w world \<Rightarrow> application \<Rightarrow> bool \<Rightarrow> string option \<Rightarrow> string option \<Rightarrow> 'w layer" where
  "application_layer w a incl p wt =
     \<lparr>config = Functional a incl p wt, trainable = True,
      weights = (case wt of None \<Rightarrow> [] | Some src \<Rightarrow> load_weights w a src)\<rparr>"

definition Dense_layer :: "nat \<Rightarrow> string option \<Rightarrow> 'w layer" where
  "Dense_layer n act = \<lparr>config = Dense n act, trainable = True, weights = []\<rparr>"

definition Sequential :: "'w model" where
  "Sequential = \<lparr>layers = [], compiled = None\<rparr>"

text \<open>
  \<^verbatim>\<open>model.add(layer)\<close>: a Dense layer that follows a layer of known output width is
  built at once, with a kernel and a bias.
\<close>

definition build :: "'w world \<Rightarrow> nat option \<Rightarrow> 'w layer \<Rightarrow> 'w layer" where
  "build w d l =
     (case (config l, d) of
        (Dense n act, Some k) \<Rightarrow>
          l\<lparr>weights := [(''kernel'', glorot_uniform w k n), (''bias'', zeros w n)]\<rparr>
      | _ \<Rightarrow> l)"

definition last_units :: "'w layer list \<Rightarrow> nat option" where
  "last_units ls = (case rev ls of [] \<Rightarrow> None | l # _ \<Rightarrow> output_units (config l))"

definition add :: "'w world \<Rightarrow> 'w model \<Rightarrow> 'w layer \<Rightarrow> 'w model" where
  "add w m l = m\<lparr>layers := layers m @ [build w (last_units (layers m)) l]\<rparr>"

text \<open>
  \<^verbatim>\<open>model.layers[i].trainable = b\<close>; Python raises \<^verbatim>\<open>IndexError\<close> when the model has no
  layer \<open>i\<close>.
\<close>

definition set_trainable :: "'w model \<Rightarrow> nat \<Rightarrow> bool \<Rightarrow> failure + 'w model" where
  "set_trainable m i b =
     (if i < length (layers m)
      then Inr (m\<lparr>layers := (layers m)[i := (layers m ! i)\<lparr>trainable := b\<rparr>]\<rparr>)
      else Inl IndexError)"

definition create_model_from_resnet :: "'w world \<Rightarrow> failure + 'w model" where
  "create_model_from_resnet w =
     (let num_classes = 2;
          resnet_weights_path =
            ''./input/resnet50/resnet50_weights_tf_dim_ordering_tf_kernels_notop.h5'';
          my_new_model = Sequential;
          my_new_model = add w my_new_model
            (application_layer w ResNet50 False (Some ''avg'') (Some resnet_weights_path));
          my_new_model = add w my_new_model (Dense_layer num_classes (Some ''softmax''))
      in set_trainable my_new_model 0 False)"

definition create_model_from_xception :: "'w world \<Rightarrow> failure + 'w model" where
  "create_model_from_xception w =
     (let num_classes = 2;
          my_new_model = Sequential;
          my_new_model = add w my_new_model
            (application_layer w Xception False (Some ''avg'') (Some ''imagenet''));
          my_new_model = add w my_new_model (Dense_layer num_classes (Some ''softmax''))
      in set_trainable my_new_model 0 False)"







text \<open>
  The function a model computes, as a term over its input: \<open>Sequential\<close> feeds each
  layer's output to the next; a backbone is applied as a whole with its own weights; a
  built Dense layer is its activation over kernel times input plus bias. A Dense layer
  that was never built has no function yet.
\<close>

datatype 'w tensor =
    Input
  | Backbone application "(string \<times> 'w) list" "'w tensor"
  | Affine 'w 'w "'w tensor"
  | Activation string "'w tensor"

definition call_layer :: "'w layer \<Rightarrow> 'w tensor \<Rightarrow> 'w tensor option" where
  "call_layer l x =
     (case config l of
        Functional a incl p wt \<Rightarrow> Some (Backbone a (weights l) x)
      | Dense n act \<Rightarrow>
          (case weights l of
             [(k, W), (b, B)] \<Rightarrow>
               Some (case act of None \<Rightarrow> Affine W B x | Some f \<Rightarrow> Activation f (Affine W B x))
           | _ \<Rightarrow> None))"

fun call_layers :: "'w layer list \<Rightarrow> 'w tensor \<Rightarrow> 'w tensor option" where
  "call_layers [] x = Some x"
| "call_layers (l # ls) x =
     (case call_layer l x of None \<Rightarrow> None | Some y \<Rightarrow> call_layers ls y)"

definition predict :: "'w model \<Rightarrow> 'w tensor option" where
  "predict m = call_layers (layers m) Input"

subsection \<open>Loading the image data\<close>

text \<open>
  \<^verbatim>\<open>ImageDataGenerator(...)\<close> with the arguments of the Keras signature that select a
  standardisation step or a random transformation. The constant below is the call with
  no argument; the notebook overrides two fields.
\<close>

record ImageDataGenerator =
  featurewise_center :: bool
  samplewise_center :: bool
  featurewise_std_normalization :: bool
  samplewise_std_normalization :: bool
  zca_whitening :: bool
  rotation_range :: real
  width_shift_range :: real
  height_shift_range :: real
  brightness_range :: "(real \<times> real) option"
  shear_range :: real
  zoom_range :: real
  channel_shift_range :: real
  horizontal_flip :: bool
  vertical_flip :: bool
  rescale :: "real option"
  preprocessing_function :: "preprocess_fn option"

definition ImageDataGenerator :: ImageDataGenerator where
  "ImageDataGenerator =
     \<lparr>featurewise_center = False, samplewise_center = False,
      featurewise_std_normalization = False, samplewise_std_normalization = False,
      zca_whitening = False, rotation_range = 0, width_shift_range = 0,
      height_shift_range = 0, brightness_range = None, shear_range = 0, zoom_range = 0,
      channel_shift_range = 0, horizontal_flip = False, vertical_flip = False,
      rescale = None, preprocessing_function = None\<rparr>"

fun enabled :: "ImageDataGenerator \<Rightarrow> augmentation \<Rightarrow> bool" where
  "enabled g Rotation = (rotation_range g \<noteq> 0)"
| "enabled g Width_shift = (width_shift_range g \<noteq> 0)"
| "enabled g Height_shift = (height_shift_range g \<noteq> 0)"
| "enabled g Shear = (shear_range g \<noteq> 0)"
| "enabled g Zoom = (zoom_range g \<noteq> 0)"
| "enabled g Channel_shift = (channel_shift_range g \<noteq> 0)"
| "enabled g Horizontal_flip = horizontal_flip g"
| "enabled g Vertical_flip = vertical_flip g"
| "enabled g Brightness = (brightness_range g \<noteq> None)"

definition augmentations :: "augmentation list" where
  "augmentations =
     [Rotation, Width_shift, Height_shift, Shear, Zoom, Channel_shift,
      Horizontal_flip, Vertical_flip, Brightness]"

text \<open>
  \<^verbatim>\<open>random_transform\<close>: every enabled transformation that the random draw selects for
  this file is applied; \<^verbatim>\<open>standardize\<close>: the preprocessing function first, then the
  other steps that are switched on.
\<close>

definition random_transform :: "'w world \<Rightarrow> ImageDataGenerator \<Rightarrow> string \<Rightarrow> pixels \<Rightarrow> pixels" where
  "random_transform w g path x =
     foldl (\<lambda>y a. if enabled g a \<and> coin w path a then Augment a y else y) x augmentations"

definition standardizations :: "ImageDataGenerator \<Rightarrow> standardization list" where
  "standardizations g =
     (case preprocessing_function g of None \<Rightarrow> [] | Some f \<Rightarrow> [Preprocessing_function f])
     @ (if rescale g \<noteq> None then [Rescale] else [])
     @ (if samplewise_center g then [Samplewise_center] else [])
     @ (if samplewise_std_normalization g then [Samplewise_std_normalization] else [])
     @ (if featurewise_center g then [Featurewise_center] else [])
     @ (if featurewise_std_normalization g then [Featurewise_std_normalization] else [])
     @ (if zca_whitening g then [Zca_whitening] else [])"

definition standardize :: "ImageDataGenerator \<Rightarrow> pixels \<Rightarrow> pixels" where
  "standardize g x = foldl (\<lambda>y s. Standardize s y) x (standardizations g)"

text \<open>
  \<^verbatim>\<open>data_generator.flow_from_directory(directory, target_size=..., batch_size=...,
  class_mode=...)\<close>. The classes are the sub-directories of the directory
  (\<^verbatim>\<open>classes=None\<close>), a file's class is the index of its sub-directory, and the iterator
  shuffles (\<^verbatim>\<open>shuffle=True\<close>, the default).
\<close>

record DirectoryIterator =
  directory :: string
  image_data_generator :: ImageDataGenerator
  target_size :: "nat \<times> nat"
  batch_size :: nat
  class_mode :: "string option"
  shuffle :: bool
  class_indices :: "string list"
  filepaths :: "string list"
  classes :: "nat list"

definition flow_from_directory ::
  "'w world \<Rightarrow> ImageDataGenerator \<Rightarrow> string \<Rightarrow> nat \<times> nat \<Rightarrow> nat \<Rightarrow> string option
     \<Rightarrow> DirectoryIterator" where
  "flow_from_directory w g dir ts bs mode =
     (let subdirs = listdir w dir in
      \<lparr>directory = dir, image_data_generator = g, target_size = ts, batch_size = bs,
       class_mode = mode, shuffle = True,
       class_indices = map fst subdirs,
       filepaths = concat (map (\<lambda>(c, fs). map (\<lambda>f. dir @ ''/'' @ c @ ''/'' @ f) fs) subdirs),
       classes = concat (map (\<lambda>(i, c, fs). replicate (length fs) i) (enumerate 0 subdirs))\<rparr>)"

definition samples :: "DirectoryIterator \<Rightarrow> nat" where
  "samples it = length (filepaths it)"

text \<open>
  \<^verbatim>\<open>len(iterator)\<close>, the number of batches of one pass:
  \<^verbatim>\<open>(n + batch_size - 1) // batch_size\<close>.
\<close>

definition len :: "DirectoryIterator \<Rightarrow> nat" where
  "len it = (samples it + batch_size it - 1) div batch_size it"

text \<open>
  A shuffle sorts by random keys, so its result is a rearrangement of its argument
  whatever the keys are. The index array of a pass is a shuffle of all sample indices.
\<close>

definition shuffled :: "(nat \<Rightarrow> nat) \<Rightarrow> nat list \<Rightarrow> nat list" where
  "shuffled keys xs = sort_key keys xs"

record seeds =
  py_seed :: "int option"
  np_seed :: "int option"
  tf_seed :: "int option"

definition index_array :: "'w world \<Rightarrow> seeds \<Rightarrow> DirectoryIterator \<Rightarrow> nat \<Rightarrow> nat list" where
  "index_array w sd it e =
     (if shuffle it then shuffled (np_random w (np_seed sd) (directory it) e) [0..<samples it]
      else [0..<samples it])"

definition one_hot :: "nat \<Rightarrow> nat \<Rightarrow> nat list" where
  "one_hot n c = map (\<lambda>j. if j = c then 1 else 0) [0..<n]"

definition label :: "DirectoryIterator \<Rightarrow> nat \<Rightarrow> nat list" where
  "label it j =
     (if class_mode it = Some ''categorical''
      then one_hot (length (class_indices it)) (classes it ! j)
      else if class_mode it = Some ''binary'' \<or> class_mode it = Some ''sparse''
      then [classes it ! j] else [])"

text \<open>
  One sample: the file is loaded at the target size, randomly transformed, then
  standardised; its label follows \<^verbatim>\<open>class_mode\<close>. \<^verbatim>\<open>iterator[idx]\<close> is the batch of
  the samples at positions \<open>idx * batch_size\<close> up to \<open>(idx + 1) * batch_size\<close> of the
  index array, and a \<^verbatim>\<open>ValueError\<close> when there is no batch \<open>idx\<close>.
\<close>

definition transformed_sample :: "'w world \<Rightarrow> DirectoryIterator \<Rightarrow> nat \<Rightarrow> sample" where
  "transformed_sample w it j =
     (let path = filepaths it ! j; g = image_data_generator it
      in (standardize g (random_transform w g path (Load_img path (target_size it))),
          label it j))"

definition index_slice :: "'w world \<Rightarrow> seeds \<Rightarrow> DirectoryIterator \<Rightarrow> nat \<Rightarrow> nat \<Rightarrow> nat list" where
  "index_slice w sd it e idx =
     take (batch_size it) (drop (batch_size it * idx) (index_array w sd it e))"

definition get_batches_of_transformed_samples ::
  "'w world \<Rightarrow> DirectoryIterator \<Rightarrow> nat list \<Rightarrow> batch" where
  "get_batches_of_transformed_samples w it js = map (transformed_sample w it) js"

definition getitem :: "'w world \<Rightarrow> seeds \<Rightarrow> DirectoryIterator \<Rightarrow> nat \<Rightarrow> nat \<Rightarrow> batch option" where
  "getitem w sd it e idx =
     (if idx < len it
      then Some (get_batches_of_transformed_samples w it (index_slice w sd it e idx))
      else None)"


subsection \<open>Training\<close>

text \<open>
  One training step on a batch: the compiled optimizer, reducing the compiled loss, gives
  a new value to every variable of every trainable layer; a layer that is not trainable
  keeps its variables.
\<close>

definition train_step ::
  "'w world \<Rightarrow> compile_args \<Rightarrow> batch \<Rightarrow> 'w layer list \<Rightarrow> 'w layer list" where
  "train_step w c b ls =
     map (\<lambda>(i, l).
            if trainable l
            then l\<lparr>weights :=
                     map (\<lambda>(v, x). (v, apply_gradients w (optimizer c) (loss c) b ls i v x))
                       (weights l)\<rparr>
            else l)
       (enumerate 0 ls)"

definition training ::
  "'w world \<Rightarrow> compile_args \<Rightarrow> batch list \<Rightarrow> 'w layer list \<Rightarrow> 'w layer list" where
  "training w c bs ls = foldl (\<lambda>ls' b. train_step w c b ls') ls bs"














subsection \<open>The cells of the notebook\<close>

text \<open>
  The first code cell: \<^verbatim>\<open>seed = 123; random.seed(seed); np.random.seed(seed);
  tf.random.set_seed(seed)\<close>.
\<close>

definition set_seeds :: seeds where
  "set_seeds = (let seed = 123 in \<lparr>py_seed = Some seed, np_seed = Some seed, tf_seed = Some seed\<rparr>)"



text \<open>
  The variables that a data-loading cell binds. The cell of the ResNet50 part imports
  \<^verbatim>\<open>preprocess_input\<close> from \<^verbatim>\<open>resnet50\<close>, the cell of the Xception part from
  \<^verbatim>\<open>xception\<close>; the rest of the two cells is the same text.
\<close>

record loaders =
  preprocess_input' :: preprocess_fn
  image_size' :: nat
  data_generator' :: ImageDataGenerator
  train_generator' :: DirectoryIterator
  validation_generator' :: DirectoryIterator

definition resnet_data_cell :: "'w world \<Rightarrow> loaders" where
  "resnet_data_cell w =
     (let preprocess_input = resnet50_preprocess_input;
          image_size = 224;
          data_generator =
            ImageDataGenerator\<lparr>preprocessing_function := Some preprocess_input,
                               horizontal_flip := True\<rparr>;
          train_generator =
            flow_from_directory w data_generator ''./input/urban-and-rural-photos/train''
              (image_size, image_size) 12 (Some ''categorical'');
          validation_generator =
            flow_from_directory w data_generator ''./input/urban-and-rural-photos/val''
              (image_size, image_size) 20 (Some ''categorical'')
      in \<lparr>preprocess_input' = preprocess_input, image_size' = image_size,
          data_generator' = data_generator, train_generator' = train_generator,
          validation_generator' = validation_generator\<rparr>)"

definition xception_data_cell :: "'w world \<Rightarrow> loaders" where
  "xception_data_cell w =
     (let preprocess_input = xception_preprocess_input;
          image_size = 224;
          data_generator =
            ImageDataGenerator\<lparr>preprocessing_function := Some preprocess_input,
                               horizontal_flip := True\<rparr>;
          train_generator =
            flow_from_directory w data_generator ''./input/urban-and-rural-photos/train''
              (image_size, image_size) 12 (Some ''categorical'');
          validation_generator =
            flow_from_directory w data_generator ''./input/urban-and-rural-photos/val''
              (image_size, image_size) 20 (Some ''categorical'')
      in \<lparr>preprocess_input' = preprocess_input, image_size' = image_size,
          data_generator' = data_generator, train_generator' = train_generator,
          validation_generator' = validation_generator\<rparr>)"




subsection \<open>The numbers a model puts out\<close>







subsection \<open>A concrete world\<close>

text \<open>
  A world to run the notebook in: two class directories, \<^verbatim>\<open>rural\<close> and \<^verbatim>\<open>urban\<close>, with
  \<open>k\<close> training and \<open>v\<close> validation images each, numbers for tensors, an optimizer that
  adds one to every variable it may touch when it is \<^verbatim>\<open>'sgd'\<close> on the categorical
  cross-entropy (and a hundred otherwise), and a random source that reverses every order
  and flips every image. With \<open>k = 36\<close> and \<open>v = 10\<close> it has the 72 and 20 images
  that the notebook found.
\<close>

definition image_names :: "nat \<Rightarrow> string list" where
  "image_names k = map (\<lambda>i. replicate (Suc i) (CHR ''i'') @ ''.jpg'') [0..<k]"

definition example_world :: "nat \<Rightarrow> nat \<Rightarrow> nat world" where
  "example_world k v =
     \<lparr>load_weights = (\<lambda>a src. [(''conv1'', 7)]),
      glorot_uniform = (\<lambda>d n. 1),
      zeros = (\<lambda>n. 0),
      listdir = (\<lambda>dir.
        if dir = ''./input/urban-and-rural-photos/train''
        then [(''rural'', image_names k), (''urban'', image_names k)]
        else if dir = ''./input/urban-and-rural-photos/val''
        then [(''rural'', image_names v), (''urban'', image_names v)]
        else []),
      py_random = (\<lambda>sd e i. 100 - i),
      np_random = (\<lambda>sd dir e i. 100 - i),
      coin = (\<lambda>path a. True),
      apply_gradients = (\<lambda>opt l b ls i v x.
        if opt = ''sgd'' \<and> l = ''categorical_crossentropy'' then x + 1 else x + 100)\<rparr>"

section \<open>Properties\<close>

subsection \<open>The two constructors\<close>

lemma create_model_from_resnet_eq:
  "create_model_from_resnet w =
     Inr \<lparr>layers =
            [\<lparr>config = Functional ResNet50 False (Some ''avg'')
                 (Some ''./input/resnet50/resnet50_weights_tf_dim_ordering_tf_kernels_notop.h5''),
              trainable = False,
              weights = load_weights w ResNet50
                 ''./input/resnet50/resnet50_weights_tf_dim_ordering_tf_kernels_notop.h5''\<rparr>,
             \<lparr>config = Dense 2 (Some ''softmax''), trainable = True,
              weights = [(''kernel'', glorot_uniform w 2048 2), (''bias'', zeros w 2)]\<rparr>],
          compiled = None\<rparr>"
  by (simp add: create_model_from_resnet_def Sequential_def add_def application_layer_def
      Dense_layer_def build_def last_units_def set_trainable_def Let_def)

lemma create_model_from_xception_eq:
  "create_model_from_xception w =
     Inr \<lparr>layers =
            [\<lparr>config = Functional Xception False (Some ''avg'') (Some ''imagenet''),
              trainable = False,
              weights = load_weights w Xception ''imagenet''\<rparr>,
             \<lparr>config = Dense 2 (Some ''softmax''), trainable = True,
              weights = [(''kernel'', glorot_uniform w 2048 2), (''bias'', zeros w 2)]\<rparr>],
          compiled = None\<rparr>"
  by (simp add: create_model_from_xception_def Sequential_def add_def application_layer_def
      Dense_layer_def build_def last_units_def set_trainable_def Let_def)

subsection \<open>Training steps, shuffles and passes over an iterator\<close>

lemma length_train_step: "length (train_step w c b ls) = length ls"
  by (simp add: train_step_def)

lemma train_step_nth:
  "i < length ls \<Longrightarrow>
   train_step w c b ls ! i =
     (if trainable (ls ! i)
      then (ls ! i)\<lparr>weights := map (\<lambda>(v, x). (v, apply_gradients w (optimizer c) (loss c) b ls i v x)) (weights (ls ! i))\<rparr>
      else ls ! i)"
  by (simp add: train_step_def nth_enumerate_eq)

lemma length_training: "length (training w c bs ls) = length ls"
  unfolding training_def by (induction bs arbitrary: ls) (simp_all add: length_train_step)

lemma training_Cons: "training w c (b # bs) ls = training w c bs (train_step w c b ls)"
  by (simp add: training_def)

lemma training_Nil: "training w c [] ls = ls"
  by (simp add: training_def)

lemma frozen_layer_unchanged:
  "i < length ls \<Longrightarrow> \<not> trainable (ls ! i) \<Longrightarrow> training w c bs ls ! i = ls ! i"
proof (induction bs arbitrary: ls)
  case Nil
  then show ?case by (simp add: training_Nil)
next
  case (Cons b bs)
  have "train_step w c b ls ! i = ls ! i"
    using Cons.prems by (simp add: train_step_nth)
  moreover have "i < length (train_step w c b ls)"
    using Cons.prems by (simp add: length_train_step)
  ultimately show ?case
    using Cons.IH [of "train_step w c b ls"] Cons.prems by (simp add: training_Cons)
qed

lemma train_step_head:
  "\<not> trainable B \<Longrightarrow>
   train_step w c b [B, \<lparr>config = cf, trainable = True, weights = [(''kernel'', k), (''bias'', z)]\<rparr>] =
     [B, \<lparr>config = cf, trainable = True,
          weights =
            [(''kernel'', apply_gradients w (optimizer c) (loss c) b
                [B, \<lparr>config = cf, trainable = True, weights = [(''kernel'', k), (''bias'', z)]\<rparr>]
                1 ''kernel'' k),
             (''bias'', apply_gradients w (optimizer c) (loss c) b
                [B, \<lparr>config = cf, trainable = True, weights = [(''kernel'', k), (''bias'', z)]\<rparr>]
                1 ''bias'' z)]\<rparr>]"
  by (simp add: train_step_def enumerate_eq_zip upt_rec)

lemma training_head:
  "\<not> trainable B \<Longrightarrow>
   \<exists>k' z'. training w c bs
       [B, \<lparr>config = cf, trainable = True, weights = [(''kernel'', k), (''bias'', z)]\<rparr>] =
     [B, \<lparr>config = cf, trainable = True, weights = [(''kernel'', k'), (''bias'', z')]\<rparr>]"
proof (induction bs arbitrary: k z)
  case Nil
  then show ?case by (simp add: training_Nil)
next
  case (Cons b bs)
  show ?case
    unfolding training_Cons train_step_head [OF Cons.prems]
    by (rule Cons.IH [OF Cons.prems])
qed



lemma mset_shuffled: "mset (shuffled ks xs) = mset xs"
  by (simp add: shuffled_def)













lemma mset_index_array: "mset (index_array w sd it e) = mset [0..<samples it]"
  by (simp add: index_array_def mset_shuffled)





subsection \<open>The cells and the iterators they build\<close>

lemma resnet_data_cell_train:
  "train_generator' (resnet_data_cell w) =
     flow_from_directory w
       (ImageDataGenerator\<lparr>preprocessing_function := Some resnet50_preprocess_input,
                          horizontal_flip := True\<rparr>)
       ''./input/urban-and-rural-photos/train'' (224, 224) 12 (Some ''categorical'')"
  by (simp add: resnet_data_cell_def Let_def)

lemma resnet_data_cell_val:
  "validation_generator' (resnet_data_cell w) =
     flow_from_directory w
       (ImageDataGenerator\<lparr>preprocessing_function := Some resnet50_preprocess_input,
                          horizontal_flip := True\<rparr>)
       ''./input/urban-and-rural-photos/val'' (224, 224) 20 (Some ''categorical'')"
  by (simp add: resnet_data_cell_def Let_def)

lemma xception_data_cell_train:
  "train_generator' (xception_data_cell w) =
     flow_from_directory w
       (ImageDataGenerator\<lparr>preprocessing_function := Some xception_preprocess_input,
                          horizontal_flip := True\<rparr>)
       ''./input/urban-and-rural-photos/train'' (224, 224) 12 (Some ''categorical'')"
  by (simp add: xception_data_cell_def Let_def)

lemma xception_data_cell_val:
  "validation_generator' (xception_data_cell w) =
     flow_from_directory w
       (ImageDataGenerator\<lparr>preprocessing_function := Some xception_preprocess_input,
                          horizontal_flip := True\<rparr>)
       ''./input/urban-and-rural-photos/val'' (224, 224) 20 (Some ''categorical'')"
  by (simp add: xception_data_cell_def Let_def)

lemma flow_from_directory_fields:
  "batch_size (flow_from_directory w g dir ts bs mode) = bs"
  "filepaths (flow_from_directory w g dir ts bs mode) =
     concat (map (\<lambda>(c, fs). map (\<lambda>f. dir @ ''/'' @ c @ ''/'' @ f) fs) (listdir w dir))"
  "shuffle (flow_from_directory w g dir ts bs mode)"
  "directory (flow_from_directory w g dir ts bs mode) = dir"
  "target_size (flow_from_directory w g dir ts bs mode) = ts"
  "class_mode (flow_from_directory w g dir ts bs mode) = mode"
  "image_data_generator (flow_from_directory w g dir ts bs mode) = g"
  "class_indices (flow_from_directory w g dir ts bs mode) = map fst (listdir w dir)"
  by (simp_all add: flow_from_directory_def Let_def)

lemma samples_flow_from_directory:
  "samples (flow_from_directory w g dir ts bs mode) =
     samples (flow_from_directory w g' dir ts' bs' mode')"
  by (simp add: samples_def flow_from_directory_fields)













lemma random_transform_flip_only:
  "random_transform w
     (ImageDataGenerator\<lparr>preprocessing_function := Some f, horizontal_flip := True\<rparr>) path x =
     (if coin w path Horizontal_flip then Augment Horizontal_flip x else x)"
  by (simp add: random_transform_def augmentations_def ImageDataGenerator_def)

lemma standardize_preprocess_only:
  "standardize (ImageDataGenerator\<lparr>preprocessing_function := Some f, horizontal_flip := True\<rparr>) x =
     Standardize (Preprocessing_function f) x"
  by (simp add: standardize_def standardizations_def ImageDataGenerator_def)

lemma enabled_flip_only:
  "filter (enabled (ImageDataGenerator\<lparr>preprocessing_function := Some f, horizontal_flip := True\<rparr>))
     augmentations = [Horizontal_flip]"
  by (simp add: augmentations_def ImageDataGenerator_def)

lemma length_paths_classes:
  "length (concat (map (\<lambda>(i, c, fs). replicate (length fs) i) (enumerate k sds))) =
   length (concat (map (\<lambda>(c, fs). map (p c) fs) sds))"
  by (induction sds arbitrary: k) (auto simp: length_concat)

lemma zip_paths_classes:
  "zip (concat (map (\<lambda>(c, fs). map (p c) fs) sds))
       (concat (map (\<lambda>(i, c, fs). replicate (length fs) i) (enumerate k sds))) =
   concat (map (\<lambda>(i, c, fs). map (\<lambda>f. (p c f, i)) fs) (enumerate k sds))"
proof (induction sds arbitrary: k)
  case Nil
  then show ?case by simp
next
  case (Cons sd sds)
  obtain c fs where sd: "sd = (c, fs)" by (cases sd)
  have "zip (map (p c) fs) (replicate (length fs) k) = map (\<lambda>f. (p c f, k)) fs"
    by (induction fs) simp_all
  then show ?case
    using Cons.IH [of "Suc k"] by (simp add: sd zip_append)
qed

lemma file_and_class:
  assumes "j < samples (flow_from_directory w g dir ts bs mode)"
  shows "\<exists>i c fs fname. i < length (listdir w dir) \<and> listdir w dir ! i = (c, fs) \<and> fname \<in> set fs
     \<and> filepaths (flow_from_directory w g dir ts bs mode) ! j = dir @ ''/'' @ c @ ''/'' @ fname
     \<and> classes (flow_from_directory w g dir ts bs mode) ! j = i"
proof -
  let ?it = "flow_from_directory w g dir ts bs mode"
  let ?p = "\<lambda>c f. dir @ ''/'' @ c @ ''/'' @ f"
  have fp: "filepaths ?it = concat (map (\<lambda>(c, fs). map (?p c) fs) (listdir w dir))"
    and cl: "classes ?it =
      concat (map (\<lambda>(i, c, fs). replicate (length fs) i) (enumerate 0 (listdir w dir)))"
    by (simp_all add: flow_from_directory_def Let_def)
  have len: "length (classes ?it) = length (filepaths ?it)"
    unfolding fp cl by (rule length_paths_classes)
  have jz: "j < length (zip (filepaths ?it) (classes ?it))"
    using assms len by (simp add: samples_def)
  then have "(filepaths ?it ! j, classes ?it ! j) = zip (filepaths ?it) (classes ?it) ! j"
    by simp
  also have "\<dots> \<in> set (zip (filepaths ?it) (classes ?it))"
    using jz by (rule nth_mem)
  finally have "(filepaths ?it ! j, classes ?it ! j) \<in>
      set (concat (map (\<lambda>(i, c, fs). map (\<lambda>f. (?p c f, i)) fs) (enumerate 0 (listdir w dir))))"
    unfolding fp cl zip_paths_classes .
  then obtain i c fs fname where "(i, c, fs) \<in> set (enumerate 0 (listdir w dir))"
    and "fname \<in> set fs" and "filepaths ?it ! j = ?p c fname" and "classes ?it ! j = i"
    by auto
  then show ?thesis
    by (auto simp: in_set_enumerate_eq)
qed

lemma set_index_slice: "set (index_slice w sd it e idx) \<subseteq> {0..<samples it}"
proof -
  have "set (index_slice w sd it e idx) \<subseteq> set (index_array w sd it e)"
    unfolding index_slice_def
    using set_take_subset set_drop_subset by fast
  also have "set (index_array w sd it e) = set [0..<samples it]"
    using mset_index_array [of w sd it e] by (metis set_mset_mset)
  finally show ?thesis by simp
qed

lemma sample_of_flow:
  assumes "getitem w sd it e idx = Some b" and "(x, y) \<in> set b"
    and it: "it = flow_from_directory w
       (ImageDataGenerator\<lparr>preprocessing_function := Some f, horizontal_flip := True\<rparr>)
       dir ts bs (Some ''categorical'')"
  shows "\<exists>i c fs fname. i < length (listdir w dir) \<and> listdir w dir ! i = (c, fs) \<and> fname \<in> set fs
     \<and> (x = Standardize (Preprocessing_function f) (Load_img (dir @ ''/'' @ c @ ''/'' @ fname) ts)
        \<or> x = Standardize (Preprocessing_function f)
                (Augment Horizontal_flip (Load_img (dir @ ''/'' @ c @ ''/'' @ fname) ts)))
     \<and> y = one_hot (length (listdir w dir)) i"
proof -
  from assms(1) have b: "b = map (transformed_sample w it) (index_slice w sd it e idx)"
    by (simp add: getitem_def get_batches_of_transformed_samples_def split: if_splits)
  with assms(2) obtain j where j: "j \<in> set (index_slice w sd it e idx)"
    and xy: "(x, y) = transformed_sample w it j"
    by auto
  from j have "j < samples it"
    using set_index_slice [of w sd it e idx] by auto
  then obtain i c fs fname where i: "i < length (listdir w dir)" "listdir w dir ! i = (c, fs)"
    "fname \<in> set fs" and p: "filepaths it ! j = dir @ ''/'' @ c @ ''/'' @ fname"
    and k: "classes it ! j = i"
    using file_and_class [of j w _ dir ts bs "Some ''categorical''"] unfolding it by blast
  have x: "x = standardize (image_data_generator it)
      (random_transform w (image_data_generator it) (filepaths it ! j)
         (Load_img (filepaths it ! j) (target_size it)))"
    and y: "y = label it j"
    using xy by (simp_all add: transformed_sample_def Let_def)
  have g: "image_data_generator it =
      ImageDataGenerator\<lparr>preprocessing_function := Some f, horizontal_flip := True\<rparr>"
    and t: "target_size it = ts" and m: "class_mode it = Some ''categorical''"
    and ci: "class_indices it = map fst (listdir w dir)"
    unfolding it by (simp_all add: flow_from_directory_fields)
  have "y = one_hot (length (listdir w dir)) i"
    using y by (simp add: label_def m ci k)
  moreover have "x = Standardize (Preprocessing_function f) (Load_img (dir @ ''/'' @ c @ ''/'' @ fname) ts)
        \<or> x = Standardize (Preprocessing_function f)
                (Augment Horizontal_flip (Load_img (dir @ ''/'' @ c @ ''/'' @ fname) ts))"
    unfolding x g t p random_transform_flip_only standardize_preprocess_only by simp
  ultimately show ?thesis
    using i by blast
qed






subsection \<open>Training steps of the two models and the example world\<close>










section \<open>The claims\<close>

subsection \<open>The models\<close>

text \<open>
  Claim C1. Both constructors return a model whose first layer is the pretrained
  backbone, marked non-trainable; compiling and fitting come after. Whatever the
  optimizer, the loss and the batches, any number of training steps from that model
  leaves the backbone layer as it was and changes nothing but the values of the kernel
  and the bias of the Dense layer.
\<close>

theorem backbone_frozen_only_head_trained:
  "(case create_model_from_resnet w of
      Inl err \<Rightarrow> False
    | Inr m \<Rightarrow>
        config (layers m ! 0) =
          Functional ResNet50 False (Some ''avg'')
            (Some ''./input/resnet50/resnet50_weights_tf_dim_ordering_tf_kernels_notop.h5'')
        \<and> \<not> trainable (layers m ! 0)
        \<and> (\<exists>k z. training w c bs (layers m) =
               [layers m ! 0,
                \<lparr>config = Dense 2 (Some ''softmax''), trainable = True,
                 weights = [(''kernel'', k), (''bias'', z)]\<rparr>]))
   \<and> (case create_model_from_xception w of
      Inl err \<Rightarrow> False
    | Inr m \<Rightarrow>
        config (layers m ! 0) = Functional Xception False (Some ''avg'') (Some ''imagenet'')
        \<and> \<not> trainable (layers m ! 0)
        \<and> (\<exists>k z. training w c bs (layers m) =
               [layers m ! 0,
                \<lparr>config = Dense 2 (Some ''softmax''), trainable = True,
                 weights = [(''kernel'', k), (''bias'', z)]\<rparr>]))"
  by (simp add: create_model_from_resnet_eq create_model_from_xception_eq training_head)


text \<open>
  Claim C4. Each constructor builds a model of exactly two layers: the backbone with
  \<^verbatim>\<open>include_top=False\<close> and \<^verbatim>\<open>pooling='avg'\<close>, then one Dense layer of two units with a
  softmax activation; the function of the model is the softmax of kernel times the
  backbone's output plus bias.
\<close>

theorem models_are_backbone_then_dense:
  "(case create_model_from_resnet w of
      Inl err \<Rightarrow> False
    | Inr m \<Rightarrow>
        map config (layers m) =
          [Functional ResNet50 False (Some ''avg'')
             (Some ''./input/resnet50/resnet50_weights_tf_dim_ordering_tf_kernels_notop.h5''),
           Dense 2 (Some ''softmax'')]
        \<and> predict m =
            Some (Activation ''softmax''
                   (Affine (glorot_uniform w 2048 2) (zeros w 2)
                     (Backbone ResNet50 (weights (layers m ! 0)) Input))))
   \<and> (case create_model_from_xception w of
      Inl err \<Rightarrow> False
    | Inr m \<Rightarrow>
        map config (layers m) =
          [Functional Xception False (Some ''avg'') (Some ''imagenet''),
           Dense 2 (Some ''softmax'')]
        \<and> predict m =
            Some (Activation ''softmax''
                   (Affine (glorot_uniform w 2048 2) (zeros w 2)
                     (Backbone Xception (weights (layers m ! 0)) Input))))"
  by (simp add: create_model_from_resnet_eq create_model_from_xception_eq predict_def
      call_layer_def)

text \<open>
  Claim C7. The backbone of each model is built without its top and takes its weights
  from a pretrained artefact, never from a random initialisation: ResNet50 from the
  local no-top weights file, Xception from \<^verbatim>\<open>weights="imagenet"\<close>. The weights of the
  layer are the content of that artefact, and still are after any training.
\<close>

theorem backbones_start_from_pretrained_weights:
  "(case create_model_from_resnet w of
      Inl err \<Rightarrow> False
    | Inr m \<Rightarrow>
        config (layers m ! 0) =
          Functional ResNet50 False (Some ''avg'')
            (Some ''./input/resnet50/resnet50_weights_tf_dim_ordering_tf_kernels_notop.h5'')
        \<and> weights (layers m ! 0) =
            load_weights w ResNet50
              ''./input/resnet50/resnet50_weights_tf_dim_ordering_tf_kernels_notop.h5''
        \<and> weights (training w c bs (layers m) ! 0) = weights (layers m ! 0))
   \<and> (case create_model_from_xception w of
      Inl err \<Rightarrow> False
    | Inr m \<Rightarrow>
        config (layers m ! 0) = Functional Xception False (Some ''avg'') (Some ''imagenet'')
        \<and> weights (layers m ! 0) = load_weights w Xception ''imagenet''
        \<and> weights (training w c bs (layers m) ! 0) = weights (layers m ! 0))"
  by (simp add: create_model_from_resnet_eq create_model_from_xception_eq
      frozen_layer_unchanged)


subsection \<open>The data and the training run\<close>

text \<open>
  Claim C5. Every sample of every batch of the four iterators (training and validation,
  in the ResNet50 and in the Xception part) is a file of one of the class
  sub-directories of the iterator's directory, loaded at 224 x 224, flipped
  horizontally or not, and passed through the \<^verbatim>\<open>preprocess_input\<close> of its part's
  backbone; its label is the one-hot vector of the index of its sub-directory. The only
  random transformation switched on is the horizontal flip, and the only
  standardisation step is the preprocessing function.
\<close>

theorem batches_are_resized_preprocessed_one_hot:
  assumes "(it, f, dir) \<in>
      {(train_generator' (resnet_data_cell w), resnet50_preprocess_input,
          ''./input/urban-and-rural-photos/train''),
       (validation_generator' (resnet_data_cell w), resnet50_preprocess_input,
          ''./input/urban-and-rural-photos/val''),
       (train_generator' (xception_data_cell w), xception_preprocess_input,
          ''./input/urban-and-rural-photos/train''),
       (validation_generator' (xception_data_cell w), xception_preprocess_input,
          ''./input/urban-and-rural-photos/val'')}"
    and "getitem w sd it e idx = Some b" and "(x, y) \<in> set b"
  shows "(\<exists>i c fs fname.
       i < length (listdir w dir) \<and> listdir w dir ! i = (c, fs) \<and> fname \<in> set fs
       \<and> (x = Standardize (Preprocessing_function f)
                 (Load_img (dir @ ''/'' @ c @ ''/'' @ fname) (224, 224))
          \<or> x = Standardize (Preprocessing_function f)
                 (Augment Horizontal_flip (Load_img (dir @ ''/'' @ c @ ''/'' @ fname) (224, 224))))
       \<and> y = one_hot (length (listdir w dir)) i)
     \<and> directory it = dir \<and> target_size it = (224, 224)
     \<and> class_mode it = Some ''categorical''
     \<and> filter (enabled (image_data_generator it)) augmentations = [Horizontal_flip]
     \<and> standardizations (image_data_generator it) = [Preprocessing_function f]"
proof -
  from assms(1) obtain bs where it: "it = flow_from_directory w
       (ImageDataGenerator\<lparr>preprocessing_function := Some f, horizontal_flip := True\<rparr>)
       dir (224, 224) bs (Some ''categorical'')"
    by (auto simp: resnet_data_cell_train resnet_data_cell_val xception_data_cell_train
        xception_data_cell_val)
  have "standardizations (image_data_generator it) = [Preprocessing_function f]"
    unfolding it by (simp add: flow_from_directory_fields standardizations_def
        ImageDataGenerator_def)
  then show ?thesis
    using sample_of_flow [OF assms(2) assms(3) it]
    by (simp add: it flow_from_directory_fields enabled_flip_only)
qed

theorem batches_are_resized_preprocessed_one_hot_witness:
  "(validation_generator' (resnet_data_cell (example_world 1 1)), resnet50_preprocess_input,
      ''./input/urban-and-rural-photos/val'') \<in>
      {(train_generator' (resnet_data_cell (example_world 1 1)), resnet50_preprocess_input,
          ''./input/urban-and-rural-photos/train''),
       (validation_generator' (resnet_data_cell (example_world 1 1)), resnet50_preprocess_input,
          ''./input/urban-and-rural-photos/val''),
       (train_generator' (xception_data_cell (example_world 1 1)), xception_preprocess_input,
          ''./input/urban-and-rural-photos/train''),
       (validation_generator' (xception_data_cell (example_world 1 1)), xception_preprocess_input,
          ''./input/urban-and-rural-photos/val'')}
   \<and> getitem (example_world 1 1) set_seeds
         (validation_generator' (resnet_data_cell (example_world 1 1))) 0 0 =
       Some [(Standardize (Preprocessing_function resnet50_preprocess_input)
                (Augment Horizontal_flip
                   (Load_img ''./input/urban-and-rural-photos/val/urban/i.jpg'' (224, 224))),
              [0, 1]),
             (Standardize (Preprocessing_function resnet50_preprocess_input)
                (Augment Horizontal_flip
                   (Load_img ''./input/urban-and-rural-photos/val/rural/i.jpg'' (224, 224))),
              [1, 0])]
   \<and> (\<exists>i c fs fname.
       i < length (listdir (example_world 1 1) ''./input/urban-and-rural-photos/val'')
       \<and> listdir (example_world 1 1) ''./input/urban-and-rural-photos/val'' ! i = (c, fs)
       \<and> fname \<in> set fs
       \<and> ''./input/urban-and-rural-photos/val/urban/i.jpg'' =
           ''./input/urban-and-rural-photos/val'' @ ''/'' @ c @ ''/'' @ fname
       \<and> [0, 1] =
           one_hot (length (listdir (example_world 1 1) ''./input/urban-and-rural-photos/val'')) i)
   \<and> target_size (validation_generator' (resnet_data_cell (example_world 1 1))) = (224, 224)
   \<and> filter (enabled (image_data_generator
          (validation_generator' (resnet_data_cell (example_world 1 1))))) augmentations =
       [Horizontal_flip]"
proof -
  let ?w = "example_world 1 1"
  let ?it = "validation_generator' (resnet_data_cell ?w)"
  let ?x = "Standardize (Preprocessing_function resnet50_preprocess_input)
      (Augment Horizontal_flip
         (Load_img ''./input/urban-and-rural-photos/val/urban/i.jpg'' (224, 224)))"
  let ?b = "[(?x, [0, 1 :: nat]),
      (Standardize (Preprocessing_function resnet50_preprocess_input)
         (Augment Horizontal_flip
            (Load_img ''./input/urban-and-rural-photos/val/rural/i.jpg'' (224, 224))),
       [1, 0])]"
  have h1: "(?it, resnet50_preprocess_input, ''./input/urban-and-rural-photos/val'') \<in>
      {(train_generator' (resnet_data_cell ?w), resnet50_preprocess_input,
          ''./input/urban-and-rural-photos/train''),
       (validation_generator' (resnet_data_cell ?w), resnet50_preprocess_input,
          ''./input/urban-and-rural-photos/val''),
       (train_generator' (xception_data_cell ?w), xception_preprocess_input,
          ''./input/urban-and-rural-photos/train''),
       (validation_generator' (xception_data_cell ?w), xception_preprocess_input,
          ''./input/urban-and-rural-photos/val'')}"
    by simp
  have h2: "getitem ?w set_seeds ?it 0 0 = Some ?b"
    by code_simp
  have h3: "(?x, [0, 1]) \<in> set ?b"
    by simp
  show ?thesis
    using h2 batches_are_resized_preprocessed_one_hot [OF h1 h2 h3] by auto
qed








end
